theory Spec2Isabelle
  imports Main "HOL-Library.Word"
begin

section \<open>The nanokernel stack object of nano_stack.c\<close>

text \<open>
  The kernel runs on 32-bit targets: a data word is a \<open>uint32_t\<close>, and a pointer is a
  32-bit byte address compared as an unsigned number. A \<open>uint32_t *\<close> moves in steps of
  \<open>sizeof(uint32_t) = 4\<close>. Pointers to data words are taken to be 4-byte aligned, so
  that two different addresses name two disjoint words of memory. The null pointer is
  the address 0.
\<close>

type_synonym u32 = "32 word"
type_synonym addr = "32 word"
type_synonym ccs_ptr = "32 word"

text \<open>
  Modelled from the spec: \<open>struct nano_stack\<close> is declared in nanok.h, which is not
  among the sources. The code reads and writes three fields of it: \<open>proc\<close> (the
  waiting context, of type \<open>tCCS *\<close>), \<open>base\<close> and \<open>next\<close> (both \<open>uint32_t *\<close>).
\<close>

record nano_stack =
  proc :: ccs_ptr
  base :: addr
  "next" :: addr

text \<open>
  The state the functions of nano_stack.c work on: the stack object \<open>chan\<close> points to,
  the memory of data words, and the part of the kernel the functions touch through
  their collaborators. \<open>current\<close> and \<open>fiber\<close> are \<open>_NanoKernel.current\<close> and the
  ready list \<open>_NanoKernel.fiber\<close>; \<open>rtn\<close> is the pending return value of each
  context; \<open>irq_locked\<close> tells whether interrupts are masked.
\<close>

record sys =
  chan :: nano_stack
  mem :: "addr \<Rightarrow> u32"
  current :: ccs_ptr
  fiber :: "ccs_ptr list"
  rtn :: "ccs_ptr \<Rightarrow> u32"
  irq_locked :: bool

subsection \<open>The collaborators\<close>

text \<open>
  Modelled from the spec: \<open>irq_lock_inline\<close> and \<open>irq_unlock_inline\<close> are not among
  the sources. The first masks interrupts and returns a token for the state before;
  the second restores the state the token stands for.
\<close>

definition irq_lock_inline :: "sys \<Rightarrow> bool \<times> sys" where
  "irq_lock_inline s = (irq_locked s, s\<lparr>irq_locked := True\<rparr>)"

definition irq_unlock_inline :: "bool \<Rightarrow> sys \<Rightarrow> sys" where
  "irq_unlock_inline imask s = s\<lparr>irq_locked := imask\<rparr>"

text \<open>
  Modelled from the spec: \<open>fiberRtnValueSet\<close> is not among the sources. It sets the
  pending return value of a context.
\<close>

definition fiberRtnValueSet :: "ccs_ptr \<Rightarrow> u32 \<Rightarrow> sys \<Rightarrow> sys" where
  "fiberRtnValueSet ccs data s = s\<lparr>rtn := (rtn s)(ccs := data)\<rparr>"

text \<open>
  Modelled from the spec: \<open>_insert_ccs\<close> is not among the sources. Called on
  \<open>_NanoKernel.fiber\<close>, it hands a context to the scheduler's ready set.
\<close>

definition insert_ccs :: "ccs_ptr \<Rightarrow> sys \<Rightarrow> sys" where
  "insert_ccs ccs s = s\<lparr>fiber := fiber s @ [ccs]\<rparr>"

text \<open>
  Modelled from the spec: \<open>_Swap\<close> is not among the sources. The calling context gives
  the processor to the scheduler and runs on only when the scheduler resumes it. A
  function of this file that reaches \<open>_Swap imask\<close> therefore ends, as far as its own
  effects go, in \<open>Swap imask\<close>; one that comes back to its caller without it ends in
  \<open>Return\<close> with its value. When the context is resumed, \<open>_Swap\<close> gives it the return
  value that is pending for it.
\<close>

datatype 'a ctl = Return 'a | Swap bool

definition Swap_value :: "sys \<Rightarrow> ccs_ptr \<Rightarrow> u32" where
  "Swap_value s ccs = rtn s ccs"

subsection \<open>Initialization\<close>

text \<open>\<open>nano_stack_init\<close> (lines 73 to 79): \<open>chan->next = chan->base = data; chan->proc = 0\<close>.\<close>

definition nano_stack_init :: "sys \<Rightarrow> addr \<Rightarrow> sys" where
  "nano_stack_init s data =
     (let s1 = s\<lparr>chan := (chan s)\<lparr>base := data\<rparr>\<rparr>;
          s2 = s1\<lparr>chan := (chan s1)\<lparr>next := base (chan s1)\<rparr>\<rparr>
      in s2\<lparr>chan := (chan s2)\<lparr>proc := 0\<rparr>\<rparr>)"

subsection \<open>Push\<close>

text \<open>
  \<open>_stack_push\<close> (lines 114 to 135), which is also \<open>nano_isr_stack_push\<close> and
  \<open>nano_fiber_stack_push\<close>. \<open>stack_push_body\<close> is what runs between masking and
  unmasking (lines 124 to 132).
\<close>

definition stack_push_body :: "sys \<Rightarrow> u32 \<Rightarrow> sys" where
  "stack_push_body s data =
     (let ccs = proc (chan s)
      in if ccs \<noteq> 0 then
           insert_ccs ccs (fiberRtnValueSet ccs data (s\<lparr>chan := (chan s)\<lparr>proc := 0\<rparr>\<rparr>))
         else
           (let s1 = s\<lparr>mem := (mem s)(next (chan s) := data)\<rparr>
            in s1\<lparr>chan := (chan s1)\<lparr>next := next (chan s1) + 4\<rparr>\<rparr>))"

definition stack_push :: "sys \<Rightarrow> u32 \<Rightarrow> sys" where
  "stack_push s data =
     (let (imask, s1) = irq_lock_inline s
      in irq_unlock_inline imask (stack_push_body s1 data))"

text \<open>
  \<open>nano_task_stack_push\<close> (lines 148 to 174): with a waiter it goes into \<open>_Swap\<close> and
  returns from there; without one it stores the word and unmasks.
\<close>

definition nano_task_stack_push :: "sys \<Rightarrow> u32 \<Rightarrow> sys \<times> unit ctl" where
  "nano_task_stack_push s data =
     (let (imask, s1) = irq_lock_inline s;
          ccs = proc (chan s1)
      in if ccs \<noteq> 0 then
           (insert_ccs ccs (fiberRtnValueSet ccs data (s1\<lparr>chan := (chan s1)\<lparr>proc := 0\<rparr>\<rparr>)),
            Swap imask)
         else
           (let s2 = s1\<lparr>mem := (mem s1)(next (chan s1) := data)\<rparr>;
                s3 = s2\<lparr>chan := (chan s2)\<lparr>next := next (chan s2) + 4\<rparr>\<rparr>
            in (irq_unlock_inline imask s3, Return ())))"

subsection \<open>Pop\<close>

text \<open>
  \<open>_stack_pop\<close> (lines 201 to 218), which is also the pop of interrupt handlers,
  fibers and tasks. The output slot \<open>pData\<close> is an address of the same memory as the
  buffer.
\<close>

definition stack_pop :: "sys \<Rightarrow> addr \<Rightarrow> sys \<times> int" where
  "stack_pop s pData =
     (let (imask, s1) = irq_lock_inline s;
          (s2, rv) =
            (if base (chan s1) < next (chan s1) then
               (let s' = s1\<lparr>chan := (chan s1)\<lparr>next := next (chan s1) - 4\<rparr>\<rparr>
                in (s'\<lparr>mem := (mem s')(pData := mem s' (next (chan s')))\<rparr>, 1))
             else (s1, 0))
      in (irq_unlock_inline imask s2, rv))"

text \<open>
  \<open>nano_fiber_stack_pop_wait\<close> (lines 238 to 257): on an empty buffer the calling fiber
  registers itself and goes into \<open>_Swap\<close>; what it returns once resumed is
  \<open>Swap_value\<close> for it.
\<close>

definition nano_fiber_stack_pop_wait :: "sys \<Rightarrow> sys \<times> u32 ctl" where
  "nano_fiber_stack_pop_wait s =
     (let (imask, s1) = irq_lock_inline s
      in if next (chan s1) = base (chan s1) then
           (s1\<lparr>chan := (chan s1)\<lparr>proc := current s1\<rparr>\<rparr>, Swap imask)
         else
           (let s2 = s1\<lparr>chan := (chan s1)\<lparr>next := next (chan s1) - 4\<rparr>\<rparr>;
                data = mem s2 (next (chan s2))
            in (irq_unlock_inline imask s2, Return data)))"

text \<open>
  \<open>nano_task_stack_pop_wait\<close> (lines 272 to 322): a task polls. Each turn of the loop masks interrupts
  and tests the buffer; on an empty buffer it calls \<open>nano_cpu_atomic_idle\<close>.

  Modelled from the spec: \<open>nano_cpu_atomic_idle\<close> is not among the sources. It restores
  the interrupt state of its token and waits; it returns after the next interrupt,
  whose handler has run by then. A handler works on the stack through the interrupt
  variants of push and pop, so the interrupts to come are given as a list of
  handlers, each a list of such calls. With no interrupt left the processor waits for
  ever and the function does not return: the result is \<open>None\<close>.
\<close>

datatype isr_call = IsrPush u32 | IsrPop addr

fun isr_run :: "sys \<Rightarrow> isr_call list \<Rightarrow> sys" where
  "isr_run s [] = s"
| "isr_run s (IsrPush v # cs) = isr_run (stack_push s v) cs"
| "isr_run s (IsrPop p # cs) = isr_run (fst (stack_pop s p)) cs"

definition nano_cpu_atomic_idle :: "bool \<Rightarrow> isr_call list \<Rightarrow> sys \<Rightarrow> sys" where
  "nano_cpu_atomic_idle imask handler s = isr_run (irq_unlock_inline imask s) handler"

fun nano_task_stack_pop_wait :: "sys \<Rightarrow> isr_call list list \<Rightarrow> sys \<times> u32 option" where
  "nano_task_stack_pop_wait s [] =
     (let (imask, s1) = irq_lock_inline s
      in if base (chan s1) < next (chan s1) then
           (let s2 = s1\<lparr>chan := (chan s1)\<lparr>next := next (chan s1) - 4\<rparr>\<rparr>;
                data = mem s2 (next (chan s2))
            in (irq_unlock_inline imask s2, Some data))
         else (irq_unlock_inline imask s1, None))"
| "nano_task_stack_pop_wait s (handler # irqs) =
     (let (imask, s1) = irq_lock_inline s
      in if base (chan s1) < next (chan s1) then
           (let s2 = s1\<lparr>chan := (chan s1)\<lparr>next := next (chan s1) - 4\<rparr>\<rparr>;
                data = mem s2 (next (chan s2))
            in (irq_unlock_inline imask s2, Some data))
         else nano_task_stack_pop_wait (nano_cpu_atomic_idle imask handler s1) irqs)"

subsection \<open>Sequences of pushes and pops\<close>

text \<open>
  What the caller of a pop sees: the word in its output slot when the return value is
  not zero, and "not found" (\<open>None\<close>) when it is zero.
\<close>

definition pop_result :: "sys \<Rightarrow> addr \<Rightarrow> sys \<times> u32 option" where
  "pop_result s pData =
     (let (s', rv) = stack_pop s pData
      in (s', if rv \<noteq> 0 then Some (mem s' pData) else None))"

datatype op = Push u32 | Pop addr

fun run_ops :: "sys \<Rightarrow> op list \<Rightarrow> u32 option list" where
  "run_ops s [] = []"
| "run_ops s (Push v # ops) = run_ops (stack_push s v) ops"
| "run_ops s (Pop p # ops) = (let (s', r) = pop_result s p in r # run_ops s' ops)"

text \<open>
  The specification of the same sequence, in the spec's words: a pop returns the last
  value pushed and not yet popped, and "not found" when there is none.
\<close>

fun lifo :: "u32 list \<Rightarrow> op list \<Rightarrow> u32 option list" where
  "lifo xs [] = []"
| "lifo xs (Push v # ops) = lifo (v # xs) ops"
| "lifo [] (Pop p # ops) = None # lifo [] ops"
| "lifo (x # xs) (Pop p # ops) = Some x # lifo xs ops"

text \<open>
  The caller's side of the contract. The backing buffer has \<open>cap\<close> slots from \<open>data\<close>
  on and ends below the top of the address space; a push comes only while fewer than
  \<open>cap\<close> items are buffered (\<open>n\<close> counts them); no output slot lies in the buffer.
\<close>

definition in_buffer :: "addr \<Rightarrow> nat \<Rightarrow> addr \<Rightarrow> bool" where
  "in_buffer data cap p = (unat data \<le> unat p \<and> unat p < unat data + 4 * cap)"

fun within_capacity :: "nat \<Rightarrow> nat \<Rightarrow> op list \<Rightarrow> bool" where
  "within_capacity cap n [] = True"
| "within_capacity cap n (Push v # ops) = (n < cap \<and> within_capacity cap (Suc n) ops)"
| "within_capacity cap n (Pop p # ops) = within_capacity cap (n - 1) ops"

fun out_slots :: "op list \<Rightarrow> addr list" where
  "out_slots [] = []"
| "out_slots (Push v # ops) = out_slots ops"
| "out_slots (Pop p # ops) = p # out_slots ops"

text \<open>The number of items in the buffer, from the two pointers.\<close>

definition buffered :: "sys \<Rightarrow> nat" where
  "buffered s = (unat (next (chan s)) - unat (base (chan s))) div 4"

subsection \<open>Sequences of calls of the whole interface\<close>

text \<open>
  Each function runs its body with interrupts masked, so a call is one step of the
  system. Between two calls the rest of the kernel runs (\<open>Other\<close>): the scheduler
  switches contexts, other code writes memory; none of it touches the stack object,
  which only the functions of this file change.
\<close>

datatype call =
    StackPush u32
  | TaskStackPush u32
  | StackPop addr
  | FiberStackPopWait
  | TaskStackPopWait "isr_call list list"
  | Other "sys \<Rightarrow> sys"

fun step :: "sys \<Rightarrow> call \<Rightarrow> sys" where
  "step s (StackPush v) = stack_push s v"
| "step s (TaskStackPush v) = fst (nano_task_stack_push s v)"
| "step s (StackPop p) = fst (stack_pop s p)"
| "step s FiberStackPopWait = fst (nano_fiber_stack_pop_wait s)"
| "step s (TaskStackPopWait irqs) = fst (nano_task_stack_pop_wait s irqs)"
| "step s (Other f) = (f s)\<lparr>chan := chan s\<rparr>"

fun run_calls :: "sys \<Rightarrow> call list \<Rightarrow> sys" where
  "run_calls s [] = s"
| "run_calls s (c # cs) = run_calls (step s c) cs"

subsection \<open>The pushes, statement by statement\<close>

text \<open>
  The states \<open>_stack_push\<close> goes through, one after each statement of lines 122 to
  134: the masking, then on the waiter path the clearing of \<open>chan->proc\<close>,
  \<open>fiberRtnValueSet\<close> and \<open>_insert_ccs\<close>, on the other path the store and the
  increment, and last the unmasking. Another context can run between two statements
  only in a state with interrupts unmasked.
\<close>

definition stack_push_steps :: "sys \<Rightarrow> u32 \<Rightarrow> sys list" where
  "stack_push_steps s data =
     (let (imask, s1) = irq_lock_inline s;
          ccs = proc (chan s1)
      in if ccs \<noteq> 0 then
           (let s2 = s1\<lparr>chan := (chan s1)\<lparr>proc := 0\<rparr>\<rparr>;
                s3 = fiberRtnValueSet ccs data s2;
                s4 = insert_ccs ccs s3
            in [s1, s2, s3, s4, irq_unlock_inline imask s4])
         else
           (let s2 = s1\<lparr>mem := (mem s1)(next (chan s1) := data)\<rparr>;
                s3 = s2\<lparr>chan := (chan s2)\<lparr>next := next (chan s2) + 4\<rparr>\<rparr>
            in [s1, s2, s3, irq_unlock_inline imask s3]))"

text \<open>
  The same for \<open>nano_task_stack_push\<close>, lines 156 to 173. On the waiter path the last
  state is the one \<open>_Swap\<close> is called in: the function does not unmask there.
\<close>

definition nano_task_stack_push_steps :: "sys \<Rightarrow> u32 \<Rightarrow> sys list" where
  "nano_task_stack_push_steps s data =
     (let (imask, s1) = irq_lock_inline s;
          ccs = proc (chan s1)
      in if ccs \<noteq> 0 then
           (let s2 = s1\<lparr>chan := (chan s1)\<lparr>proc := 0\<rparr>\<rparr>;
                s3 = fiberRtnValueSet ccs data s2;
                s4 = insert_ccs ccs s3
            in [s1, s2, s3, s4])
         else
           (let s2 = s1\<lparr>mem := (mem s1)(next (chan s1) := data)\<rparr>;
                s3 = s2\<lparr>chan := (chan s2)\<lparr>next := next (chan s2) + 4\<rparr>\<rparr>
            in [s1, s2, s3, irq_unlock_inline imask s3]))"

text \<open>
  The hand-off to the waiter of state \<open>t\<close> is complete in state \<open>u\<close>: the field is
  clear, the word is pending for the waiter, the waiter is on the ready list.
\<close>

definition handed_off :: "sys \<Rightarrow> u32 \<Rightarrow> sys \<Rightarrow> bool" where
  "handed_off t v u =
     (proc (chan u) = 0 \<and> rtn u (proc (chan t)) = v \<and> fiber u = fiber t @ [proc (chan t)])"

subsection \<open>The caller's contract on capacity, for calls of the whole interface\<close>

text \<open>
  The buffer is the caller's, \<open>cap\<close> slots from \<open>base\<close> on, and the stack object lies
  outside it. A push that finds no waiter stores a word, so it may come only while
  fewer than \<open>cap\<close> items are buffered: then the store goes into the buffer. This
  holds for the pushes of the calls and for those of the interrupt handlers that run
  while a task polls.
\<close>

definition push_fits :: "nat \<Rightarrow> sys \<Rightarrow> bool" where
  "push_fits cap s =
     (if proc (chan s) \<noteq> 0 then True
      else base (chan s) \<le> next (chan s) \<and> buffered s < cap)"

fun isr_keeps_capacity :: "nat \<Rightarrow> sys \<Rightarrow> isr_call list \<Rightarrow> bool" where
  "isr_keeps_capacity cap s [] = True"
| "isr_keeps_capacity cap s (IsrPush v # cs) =
     (push_fits cap s \<and> isr_keeps_capacity cap (stack_push s v) cs)"
| "isr_keeps_capacity cap s (IsrPop p # cs) = isr_keeps_capacity cap (fst (stack_pop s p)) cs"

fun poll_keeps_capacity :: "nat \<Rightarrow> sys \<Rightarrow> isr_call list list \<Rightarrow> bool" where
  "poll_keeps_capacity cap s [] = True"
| "poll_keeps_capacity cap s (handler # irqs) =
     (let (imask, s1) = irq_lock_inline s
      in if base (chan s1) < next (chan s1) then True
         else isr_keeps_capacity cap (irq_unlock_inline imask s1) handler
              \<and> poll_keeps_capacity cap (nano_cpu_atomic_idle imask handler s1) irqs)"

fun call_keeps_capacity :: "nat \<Rightarrow> sys \<Rightarrow> call \<Rightarrow> bool" where
  "call_keeps_capacity cap s (StackPush v) = push_fits cap s"
| "call_keeps_capacity cap s (TaskStackPush v) = push_fits cap s"
| "call_keeps_capacity cap s (StackPop p) = True"
| "call_keeps_capacity cap s FiberStackPopWait = True"
| "call_keeps_capacity cap s (TaskStackPopWait irqs) = poll_keeps_capacity cap s irqs"
| "call_keeps_capacity cap s (Other f) = True"

fun keeps_capacity :: "nat \<Rightarrow> sys \<Rightarrow> call list \<Rightarrow> bool" where
  "keeps_capacity cap s [] = True"
| "keeps_capacity cap s (c # cs) =
     (call_keeps_capacity cap s c \<and> keeps_capacity cap (step s c) cs)"

subsection \<open>Notions for the proofs\<close>

text \<open>The address of slot \<open>i\<close> of a buffer that starts at \<open>data\<close>.\<close>

definition slot :: "addr \<Rightarrow> nat \<Rightarrow> addr" where
  "slot data i = data + 4 * of_nat i"

text \<open>
  The stack object holds the items \<open>xs\<close> (the last one pushed first) in a buffer of
  \<open>cap\<close> slots at \<open>data\<close>, with no waiter.
\<close>

definition holds :: "addr \<Rightarrow> nat \<Rightarrow> sys \<Rightarrow> u32 list \<Rightarrow> bool" where
  "holds data cap s xs =
     (proc (chan s) = 0 \<and> base (chan s) = data \<and> next (chan s) = slot data (length xs)
      \<and> length xs \<le> cap \<and> (\<forall>i < length xs. mem s (slot data i) = rev xs ! i))"

text \<open>A waiter is registered only on an empty buffer.\<close>

definition waiter_inv :: "sys \<Rightarrow> bool" where
  "waiter_inv s = (proc (chan s) \<noteq> 0 \<longrightarrow> next (chan s) = base (chan s))"

text \<open>
  A state to run examples from: a stale stack object, zeroed memory, the fiber at
  \<open>0x3000\<close> running with interrupts enabled, nothing ready.
\<close>

definition example_sys :: sys where
  "example_sys =
     \<lparr>chan = \<lparr>proc = 5, base = 3, next = 9\<rparr>, mem = (\<lambda>_. 0), current = 0x3000,
      fiber = [], rtn = (\<lambda>_. 0), irq_locked = False\<rparr>"

lemmas stack_defs =
  stack_pop_def stack_push_def stack_push_body_def nano_task_stack_push_def
  nano_fiber_stack_pop_wait_def irq_lock_inline_def irq_unlock_inline_def
  fiberRtnValueSet_def insert_ccs_def

section \<open>Initialization\<close>

text \<open>
  C8: for every stack object and every pointer to backing storage, \<open>nano_stack_init\<close>
  sets \<open>next\<close> and \<open>base\<close> to that pointer and clears the waiting context, and touches
  nothing else: right after it the buffer is empty (\<open>next = base\<close>) and no waiter is
  registered.
\<close>

theorem nano_stack_init_sets_fields:
  "nano_stack_init s data = s\<lparr>chan := \<lparr>proc = 0, base = data, next = data\<rparr>\<rparr>
   \<and> next (chan (nano_stack_init s data)) = base (chan (nano_stack_init s data))
   \<and> proc (chan (nano_stack_init s data)) = 0"
  by (simp add: nano_stack_init_def)

section \<open>Non-blocking pop\<close>

text \<open>
  C5: a non-blocking pop on a stack with \<open>next > base\<close> decrements \<open>next\<close>, copies the
  word at the new top into the output slot and returns 1, changing nothing else; on
  any other stack it returns 0 and leaves the whole state, the output slot included,
  as it was.
\<close>

theorem stack_pop_effect:
  "(base (chan s) < next (chan s) \<longrightarrow>
      stack_pop s pData =
        (s\<lparr>chan := (chan s)\<lparr>next := next (chan s) - 4\<rparr>,
           mem := (mem s)(pData := mem s (next (chan s) - 4))\<rparr>, 1))
   \<and> (\<not> base (chan s) < next (chan s) \<longrightarrow>
        stack_pop s pData = (s, 0) \<and> mem (fst (stack_pop s pData)) pData = mem s pData)"
  by (simp add: stack_pop_def irq_lock_inline_def irq_unlock_inline_def)

theorem stack_pop_effect_witness:
  "base (chan (stack_push (nano_stack_init example_sys 0x1000) 7))
     < next (chan (stack_push (nano_stack_init example_sys 0x1000) 7))
   \<and> snd (stack_pop (stack_push (nano_stack_init example_sys 0x1000) 7) 0x2000) = 1
   \<and> next (chan (fst (stack_pop (stack_push (nano_stack_init example_sys 0x1000) 7) 0x2000)))
       = 0x1000
   \<and> mem (fst (stack_pop (stack_push (nano_stack_init example_sys 0x1000) 7) 0x2000)) 0x2000 = 7
   \<and> \<not> base (chan (nano_stack_init example_sys 0x1000))
         < next (chan (nano_stack_init example_sys 0x1000))
   \<and> stack_pop (nano_stack_init example_sys 0x1000) 0x2000
       = (nano_stack_init example_sys 0x1000, 0)"
  using stack_pop_effect [of "stack_push (nano_stack_init example_sys 0x1000) 7" "0x2000"]
    stack_pop_effect [of "nano_stack_init example_sys 0x1000" "0x2000"]
  by (simp add: example_sys_def nano_stack_init_def stack_push_def stack_push_body_def
      irq_lock_inline_def irq_unlock_inline_def)

text \<open>
  C10: a non-blocking pop on an empty stack (\<open>next = base\<close>) returns 0, "not found",
  and leaves the stack object as it was: \<open>base\<close>, \<open>next\<close> and the waiting context
  keep their values, as does everything else.
\<close>

theorem stack_pop_empty_unchanged:
  assumes "next (chan s) = base (chan s)"
  shows "stack_pop s pData = (s, 0)
         \<and> base (chan (fst (stack_pop s pData))) = base (chan s)
         \<and> next (chan (fst (stack_pop s pData))) = next (chan s)
         \<and> proc (chan (fst (stack_pop s pData))) = proc (chan s)"
  using assms by (simp add: stack_pop_def irq_lock_inline_def irq_unlock_inline_def)

theorem stack_pop_empty_unchanged_witness:
  "next (chan (nano_stack_init example_sys 0x1000)) = base (chan (nano_stack_init example_sys 0x1000))
   \<and> stack_pop (nano_stack_init example_sys 0x1000) 0x2000
       = (nano_stack_init example_sys 0x1000, 0)
   \<and> chan (fst (stack_pop (nano_stack_init example_sys 0x1000) 0x2000))
       = \<lparr>proc = 0, base = 0x1000, next = 0x1000\<rparr>"
  using stack_pop_empty_unchanged [of "nano_stack_init example_sys 0x1000" "0x2000"]
  by (simp add: example_sys_def nano_stack_init_def)

section \<open>LIFO order\<close>

text \<open>Slot addresses do not wrap when the buffer ends below the top of the address space.\<close>

lemma slot_unat:
  assumes "unat (data :: addr) + 4 * cap < 2 ^ 32" and "n \<le> cap"
  shows "unat (slot data n) = unat data + 4 * n"
proof -
  have "4 * n < 2 ^ 32"
    using assms by simp
  then have "unat (4 * of_nat n :: addr) = 4 * n"
    by (simp add: unat_word_ariths unat_of_nat take_bit_nat_eq_self)
  moreover have "unat data + 4 * n < 2 ^ 32"
    using assms by simp
  ultimately show ?thesis
    by (simp add: slot_def unat_word_ariths take_bit_nat_eq_self unat_of_nat)
qed

lemma slot_inj:
  assumes "unat data + 4 * cap < 2 ^ 32" and "i \<le> cap" and "j \<le> cap"
    and "slot data i = slot data j"
  shows "i = j"
proof -
  have "unat (slot data i) = unat (slot data j)"
    using assms(4) by simp
  then show ?thesis
    using assms(1-3) by (simp add: slot_unat)
qed

lemma slot_less:
  assumes "unat data + 4 * cap < 2 ^ 32" and "n \<le> cap"
  shows "(data < slot data n) = (0 < n)"
  using assms by (simp add: word_less_nat_alt slot_unat)

lemma slot_in_buffer:
  assumes "unat data + 4 * cap < 2 ^ 32" and "i < cap"
  shows "in_buffer data cap (slot data i)"
  using assms by (simp add: in_buffer_def slot_unat)

lemma slot_Suc:
  "slot data (Suc n) - 4 = slot data n"
  "slot data n + 4 = slot data (Suc n)"
  by (simp_all add: slot_def algebra_simps)

lemma holds_init: "holds data cap (nano_stack_init s data) []"
  by (simp add: holds_def nano_stack_init_def slot_def)

lemma holds_push:
  assumes w: "unat data + 4 * cap < 2 ^ 32"
    and h: "holds data cap s xs"
    and n: "length xs < cap"
  shows "holds data cap (stack_push s v) (v # xs)"
proof -
  have neq: "slot data i \<noteq> slot data (length xs)" if "i < length xs" for i
    using slot_inj [OF w, of i "length xs"] that n by auto
  have st: "stack_push s v =
              s\<lparr>mem := (mem s)(slot data (length xs) := v),
                chan := (chan s)\<lparr>next := slot data (Suc (length xs))\<rparr>\<rparr>"
    using h by (simp add: holds_def stack_push_def stack_push_body_def irq_lock_inline_def
        irq_unlock_inline_def slot_Suc)
  show ?thesis
    unfolding st using h n neq
    by (auto simp add: holds_def nth_append less_Suc_eq)
qed

lemma holds_pop_empty:
  assumes "holds data cap s []"
  shows "pop_result s p = (s, None)"
  using assms by (simp add: holds_def pop_result_def stack_pop_def irq_lock_inline_def
      irq_unlock_inline_def slot_def)

lemma holds_pop:
  assumes w: "unat data + 4 * cap < 2 ^ 32"
    and h: "holds data cap s (x # xs)"
    and p: "\<not> in_buffer data cap p"
  shows "\<exists>s'. pop_result s p = (s', Some x) \<and> holds data cap s' xs"
proof -
  have len: "Suc (length xs) \<le> cap"
    using h by (simp add: holds_def)
  have lt: "base (chan s) < next (chan s)"
    using h slot_less [OF w len] by (simp add: holds_def)
  have top: "mem s (slot data (length xs)) = x"
    using h by (simp add: holds_def nth_append)
  have neq: "slot data i \<noteq> p" if "i < length xs" for i
    using slot_in_buffer [OF w, of i] that len p by auto
  have st: "pop_result s p =
              (s\<lparr>chan := (chan s)\<lparr>next := slot data (length xs)\<rparr>,
                 mem := (mem s)(p := x)\<rparr>, Some x)"
    using h lt top by (simp add: holds_def pop_result_def stack_pop_def irq_lock_inline_def
        irq_unlock_inline_def slot_Suc)
  have "holds data cap
          (s\<lparr>chan := (chan s)\<lparr>next := slot data (length xs)\<rparr>, mem := (mem s)(p := x)\<rparr>) xs"
    using h neq len by (auto simp add: holds_def nth_append)
  with st show ?thesis
    by simp
qed

lemma run_ops_lifo:
  assumes w: "unat data + 4 * cap < 2 ^ 32"
  shows "holds data cap s xs \<Longrightarrow> within_capacity cap (length xs) ops \<Longrightarrow>
         list_all (\<lambda>p. \<not> in_buffer data cap p) (out_slots ops) \<Longrightarrow>
         run_ops s ops = lifo xs ops"
proof (induction xs ops arbitrary: s rule: lifo.induct)
  case (1 xs)
  then show ?case
    by simp
next
  case (2 xs v ops)
  then show ?case
    using holds_push [OF w] by simp
next
  case (3 p ops)
  then show ?case
    using holds_pop_empty by simp
next
  case (4 x xs p ops)
  from 4 obtain s' where "pop_result s p = (s', Some x)" and "holds data cap s' xs"
    using holds_pop [OF w, of s x xs p] by auto
  with 4 show ?case
    by simp
qed

text \<open>
  C1: on a stack just initialized on a buffer of \<open>cap\<close> slots, every sequence of pushes
  and non-blocking pops that keeps to the caller's contract (a push only while fewer
  than \<open>cap\<close> items are buffered, output slots outside the buffer, the buffer below
  the top of the address space) returns what the LIFO specification returns: each pop
  gives the last value pushed and not yet popped, and a pop with nothing buffered
  reports "not found". No waiter is registered at any point: initialization clears
  the field and neither function sets it.
\<close>

theorem stack_lifo:
  assumes "unat data + 4 * cap < 2 ^ 32"
    and "within_capacity cap 0 ops"
    and "list_all (\<lambda>p. \<not> in_buffer data cap p) (out_slots ops)"
  shows "run_ops (nano_stack_init s data) ops = lifo [] ops"
  using run_ops_lifo [OF assms(1) holds_init] assms(2,3) by simp

text \<open>
  The scenario of the spec: a buffer of 4 slots at \<open>0x1000\<close>, the output slot at
  \<open>0x2000\<close>; push 1, 2, 3; two pops; push 9; three pops.
\<close>

theorem stack_lifo_scenario:
  "unat (0x1000 :: addr) + 4 * 4 < 2 ^ 32
   \<and> within_capacity 4 0
        [Push 1, Push 2, Push 3, Pop 0x2000, Pop 0x2000, Push 9, Pop 0x2000, Pop 0x2000,
         Pop 0x2000]
   \<and> list_all (\<lambda>p. \<not> in_buffer 0x1000 4 p)
        (out_slots [Push 1, Push 2, Push 3, Pop 0x2000, Pop 0x2000, Push 9, Pop 0x2000,
           Pop 0x2000, Pop 0x2000])
   \<and> run_ops (nano_stack_init example_sys 0x1000)
        [Push 1, Push 2, Push 3, Pop 0x2000, Pop 0x2000, Push 9, Pop 0x2000, Pop 0x2000,
         Pop 0x2000]
      = [Some 3, Some 2, Some 9, Some 1, None]"
  using stack_lifo [of "0x1000" 4
      "[Push 1, Push 2, Push 3, Pop 0x2000, Pop 0x2000, Push 9, Pop 0x2000, Pop 0x2000,
        Pop 0x2000]" example_sys]
  by (simp add: in_buffer_def)

section \<open>Pop-or-wait of a fiber\<close>

text \<open>
  C6: \<open>nano_fiber_stack_pop_wait\<close> on a stack with \<open>next > base\<close> decrements \<open>next\<close>
  and returns the word at the new top without going through \<open>_Swap\<close>; the waiting
  context and everything else stay as they were. It is the pop of \<open>_stack_pop\<close>: that
  one ends in the same state but for its output slot, which holds the same word, and
  returns 1.
\<close>

theorem pop_wait_nonempty:
  assumes "base (chan s) < next (chan s)"
  shows "nano_fiber_stack_pop_wait s =
           (s\<lparr>chan := (chan s)\<lparr>next := next (chan s) - 4\<rparr>\<rparr>,
            Return (mem s (next (chan s) - 4)))
         \<and> proc (chan (fst (nano_fiber_stack_pop_wait s))) = proc (chan s)
         \<and> stack_pop s pData =
             ((fst (nano_fiber_stack_pop_wait s))
                \<lparr>mem := (mem s)(pData := mem s (next (chan s) - 4))\<rparr>, 1)"
  using assms by (auto simp add: stack_defs)

theorem pop_wait_nonempty_witness:
  "base (chan (stack_push (nano_stack_init example_sys 0x1000) 7))
     < next (chan (stack_push (nano_stack_init example_sys 0x1000) 7))
   \<and> snd (nano_fiber_stack_pop_wait (stack_push (nano_stack_init example_sys 0x1000) 7))
       = Return 7
   \<and> chan (fst (nano_fiber_stack_pop_wait (stack_push (nano_stack_init example_sys 0x1000) 7)))
       = \<lparr>proc = 0, base = 0x1000, next = 0x1000\<rparr>"
  using pop_wait_nonempty [of "stack_push (nano_stack_init example_sys 0x1000) 7"]
  by (simp add: example_sys_def nano_stack_init_def stack_push_def stack_push_body_def
      irq_lock_inline_def irq_unlock_inline_def)

text \<open>
  C9: the stack object has one waiter field. A pop-or-wait of a fiber on a stack that
  has a waiter registered either finds \<open>next \<noteq> base\<close> and pops from the buffer,
  leaving the registration alone, or finds \<open>next = base\<close> and writes the calling
  context over the first registration: the first waiter is kept nowhere, neither in
  the ready list nor in any other field.
\<close>

theorem second_waiter_replaces_first:
  assumes "proc (chan s) \<noteq> 0"
  shows "(next (chan s) \<noteq> base (chan s) \<and>
          nano_fiber_stack_pop_wait s =
            (s\<lparr>chan := (chan s)\<lparr>next := next (chan s) - 4\<rparr>\<rparr>,
             Return (mem s (next (chan s) - 4))))
       \<or> (next (chan s) = base (chan s) \<and>
          nano_fiber_stack_pop_wait s =
            (s\<lparr>chan := (chan s)\<lparr>proc := current s\<rparr>, irq_locked := True\<rparr>,
             Swap (irq_locked s)))"
  by (simp add: stack_defs Let_def)

theorem second_waiter_replaces_first_witness:
  "proc (chan ((nano_stack_init example_sys 0x1000)
                 \<lparr>chan := \<lparr>proc = 0x4000, base = 0x1000, next = 0x1000\<rparr>\<rparr>)) \<noteq> 0
   \<and> chan (fst (nano_fiber_stack_pop_wait ((nano_stack_init example_sys 0x1000)
                 \<lparr>chan := \<lparr>proc = 0x4000, base = 0x1000, next = 0x1000\<rparr>\<rparr>)))
       = \<lparr>proc = 0x3000, base = 0x1000, next = 0x1000\<rparr>
   \<and> fiber (fst (nano_fiber_stack_pop_wait ((nano_stack_init example_sys 0x1000)
                 \<lparr>chan := \<lparr>proc = 0x4000, base = 0x1000, next = 0x1000\<rparr>\<rparr>))) = []
   \<and> snd (nano_fiber_stack_pop_wait ((nano_stack_init example_sys 0x1000)
                 \<lparr>chan := \<lparr>proc = 0x4000, base = 0x1000, next = 0x1000\<rparr>\<rparr>)) = Swap False"
  using second_waiter_replaces_first [of "(nano_stack_init example_sys 0x1000)
                 \<lparr>chan := \<lparr>proc = 0x4000, base = 0x1000, next = 0x1000\<rparr>\<rparr>"]
  by (simp add: example_sys_def nano_stack_init_def)

section \<open>Push\<close>

text \<open>
  C4: \<open>nano_task_stack_push\<close> on a stack with a waiter does the hand-off of
  \<open>_stack_push\<close> and then goes into \<open>_Swap\<close> with its interrupt token, interrupts
  still masked: but for the mask, which \<open>_Swap\<close> takes over, the state it yields in is
  the one \<open>_stack_push\<close> returns in. On a stack with no waiter it ends in the very
  state of \<open>_stack_push\<close> and returns without going through \<open>_Swap\<close>.
\<close>

theorem task_push_yields_iff_waiter:
  "(proc (chan s) \<noteq> 0 \<longrightarrow>
      snd (nano_task_stack_push s v) = Swap (irq_locked s)
      \<and> irq_locked (fst (nano_task_stack_push s v))
      \<and> irq_unlock_inline (irq_locked s) (fst (nano_task_stack_push s v)) = stack_push s v)
   \<and> (proc (chan s) = 0 \<longrightarrow> nano_task_stack_push s v = (stack_push s v, Return ()))"
  by (simp add: stack_defs Let_def)

theorem task_push_yields_iff_waiter_witness:
  "proc (chan (fst (nano_fiber_stack_pop_wait (nano_stack_init example_sys 0x1000)))) \<noteq> 0
   \<and> snd (nano_task_stack_push
            (fst (nano_fiber_stack_pop_wait (nano_stack_init example_sys 0x1000))) 42)
       = Swap True
   \<and> proc (chan (nano_stack_init example_sys 0x1000)) = 0
   \<and> nano_task_stack_push (nano_stack_init example_sys 0x1000) 42
       = (stack_push (nano_stack_init example_sys 0x1000) 42, Return ())"
  using task_push_yields_iff_waiter
      [of "fst (nano_fiber_stack_pop_wait (nano_stack_init example_sys 0x1000))" 42]
    task_push_yields_iff_waiter [of "nano_stack_init example_sys 0x1000" 42]
  by (simp add: example_sys_def nano_stack_init_def nano_fiber_stack_pop_wait_def
      irq_lock_inline_def)

text \<open>
  C7: a push with no waiter stores the word at the address in \<open>next\<close> and adds one
  slot to \<open>next\<close>, whatever the pointers are: the functions take no capacity and test
  none. So when fewer items are buffered than the buffer has slots the store goes
  into the buffer, and when not it is made all the same, outside the buffer; no
  branch reports an error.
\<close>

theorem push_unchecked:
  "(proc (chan s) = 0 \<longrightarrow>
      stack_push s v =
        s\<lparr>mem := (mem s)(next (chan s) := v),
          chan := (chan s)\<lparr>next := next (chan s) + 4\<rparr>\<rparr>
      \<and> nano_task_stack_push s v = (stack_push s v, Return ()))
   \<and> (proc (chan s) = 0 \<and> base (chan s) \<le> next (chan s) \<and> buffered s < cap \<longrightarrow>
        in_buffer (base (chan s)) cap (next (chan s))
        \<and> mem (stack_push s v) (next (chan s)) = v)
   \<and> (proc (chan s) = 0 \<and> base (chan s) \<le> next (chan s) \<and> \<not> buffered s < cap \<longrightarrow>
        \<not> in_buffer (base (chan s)) cap (next (chan s))
        \<and> mem (stack_push s v) (next (chan s)) = v)"
  by (auto simp add: stack_defs Let_def in_buffer_def buffered_def word_le_nat_alt)

theorem push_unchecked_witness:
  "proc (chan (stack_push (nano_stack_init example_sys 0x1000) 7)) = 0
   \<and> base (chan (stack_push (nano_stack_init example_sys 0x1000) 7))
       \<le> next (chan (stack_push (nano_stack_init example_sys 0x1000) 7))
   \<and> buffered (stack_push (nano_stack_init example_sys 0x1000) 7) < 4
   \<and> in_buffer 0x1000 4 (next (chan (stack_push (nano_stack_init example_sys 0x1000) 7)))
   \<and> mem (stack_push (stack_push (nano_stack_init example_sys 0x1000) 7) 8) 0x1004 = 8
   \<and> \<not> buffered (stack_push (nano_stack_init example_sys 0x1000) 7) < 1
   \<and> \<not> in_buffer 0x1000 1 (next (chan (stack_push (nano_stack_init example_sys 0x1000) 7)))"
  using push_unchecked [of "stack_push (nano_stack_init example_sys 0x1000) 7" 8 4]
    push_unchecked [of "stack_push (nano_stack_init example_sys 0x1000) 7" 8 1]
  by (simp add: example_sys_def nano_stack_init_def stack_push_def stack_push_body_def
      irq_lock_inline_def irq_unlock_inline_def buffered_def)

section \<open>Hand-off to a waiting fiber\<close>

text \<open>
  C2: a fiber (its context is not null) calls pop-or-wait on a stack with an empty
  buffer and no waiter: it registers itself and goes into \<open>_Swap\<close>. Whatever the rest
  of the kernel does then without touching the stack object, the next \<open>_stack_push\<close>
  of a word \<open>v\<close> clears the waiter field, makes \<open>v\<close> the pending return value of that
  fiber and of no other context (so \<open>v\<close> is what its pop-or-wait returns once
  resumed), and appends the fiber, once, to the ready list. The buffer is not
  touched: \<open>base\<close>, \<open>next\<close> and the memory are as before, and the push does the same
  whatever \<open>base\<close> and \<open>next\<close> are, which it carries over unread.
\<close>

theorem push_hands_off_to_waiter:
  assumes "next (chan s) = base (chan s)"
    and "proc (chan s) = 0"
    and "current s \<noteq> 0"
  shows "let s1 = step (fst (nano_fiber_stack_pop_wait s)) (Other f);
             s2 = stack_push s1 v
         in snd (nano_fiber_stack_pop_wait s) = Swap (irq_locked s)
            \<and> proc (chan s1) = current s
            \<and> proc (chan s2) = 0
            \<and> Swap_value s2 (current s) = v
            \<and> rtn s2 = (rtn s1)(current s := v)
            \<and> fiber s2 = fiber s1 @ [current s]
            \<and> base (chan s2) = base (chan s)
            \<and> next (chan s2) = next (chan s)
            \<and> mem s2 = mem s1
            \<and> (\<forall>b n. stack_push (s1\<lparr>chan := (chan s1)\<lparr>base := b, next := n\<rparr>\<rparr>) v =
                       (stack_push s1 v)
                         \<lparr>chan := (chan (stack_push s1 v))\<lparr>base := b, next := n\<rparr>\<rparr>)"
  using assms by (simp add: stack_defs Let_def Swap_value_def)

text \<open>
  The scenario of the spec: fiber \<open>0x3000\<close> waits on the empty stack, the scheduler
  switches to another context, 42 is pushed.
\<close>

theorem push_hands_off_to_waiter_witness:
  "next (chan (nano_stack_init example_sys 0x1000))
     = base (chan (nano_stack_init example_sys 0x1000))
   \<and> proc (chan (nano_stack_init example_sys 0x1000)) = 0
   \<and> current (nano_stack_init example_sys 0x1000) = 0x3000
   \<and> proc (chan (stack_push
        (step (fst (nano_fiber_stack_pop_wait (nano_stack_init example_sys 0x1000)))
           (Other (\<lambda>s. s\<lparr>current := 0x5000, irq_locked := False\<rparr>))) 42)) = 0
   \<and> base (chan (stack_push
        (step (fst (nano_fiber_stack_pop_wait (nano_stack_init example_sys 0x1000)))
           (Other (\<lambda>s. s\<lparr>current := 0x5000, irq_locked := False\<rparr>))) 42)) = 0x1000
   \<and> next (chan (stack_push
        (step (fst (nano_fiber_stack_pop_wait (nano_stack_init example_sys 0x1000)))
           (Other (\<lambda>s. s\<lparr>current := 0x5000, irq_locked := False\<rparr>))) 42)) = 0x1000
   \<and> Swap_value (stack_push
        (step (fst (nano_fiber_stack_pop_wait (nano_stack_init example_sys 0x1000)))
           (Other (\<lambda>s. s\<lparr>current := 0x5000, irq_locked := False\<rparr>))) 42) 0x3000 = 42
   \<and> fiber (stack_push
        (step (fst (nano_fiber_stack_pop_wait (nano_stack_init example_sys 0x1000)))
           (Other (\<lambda>s. s\<lparr>current := 0x5000, irq_locked := False\<rparr>))) 42) = [0x3000]"
proof -
  have pre: "next (chan (nano_stack_init example_sys 0x1000))
               = base (chan (nano_stack_init example_sys 0x1000))"
    "proc (chan (nano_stack_init example_sys 0x1000)) = 0"
    "current (nano_stack_init example_sys 0x1000) \<noteq> 0"
    and cur: "current (nano_stack_init example_sys 0x1000) = 0x3000"
    and rdy: "fiber (step (fst (nano_fiber_stack_pop_wait (nano_stack_init example_sys 0x1000)))
           (Other (\<lambda>s. s\<lparr>current := 0x5000, irq_locked := False\<rparr>))) = []"
    by (simp_all add: example_sys_def nano_stack_init_def nano_fiber_stack_pop_wait_def
        irq_lock_inline_def)
  note h = push_hands_off_to_waiter [OF pre,
      of "\<lambda>s. s\<lparr>current := 0x5000, irq_locked := False\<rparr>" 42, unfolded Let_def]
  note c = h [THEN conjunct2, THEN conjunct2]
  note proc2 = c [THEN conjunct1]
  note val2 = c [THEN conjunct2, THEN conjunct1]
  note d = c [THEN conjunct2, THEN conjunct2, THEN conjunct2]
  note fiber2 = d [THEN conjunct1]
  note base2 = d [THEN conjunct2, THEN conjunct1]
  note next2 = d [THEN conjunct2, THEN conjunct2, THEN conjunct1]
  show ?thesis
    using pre(1,2) cur rdy proc2 val2 fiber2 base2 next2
    by (simp add: nano_stack_init_def)
qed

section \<open>The waiter invariant\<close>

lemma waiter_inv_init: "waiter_inv (nano_stack_init s data)"
  by (simp add: waiter_inv_def nano_stack_init_def)

lemma waiter_inv_push: "waiter_inv s \<Longrightarrow> waiter_inv (stack_push s v)"
  by (simp add: waiter_inv_def stack_defs Let_def)

lemma waiter_inv_task_push: "waiter_inv s \<Longrightarrow> waiter_inv (fst (nano_task_stack_push s v))"
  by (simp add: waiter_inv_def stack_defs Let_def)

lemma waiter_inv_pop: "waiter_inv s \<Longrightarrow> waiter_inv (fst (stack_pop s p))"
  by (auto simp add: waiter_inv_def stack_defs Let_def)

lemma waiter_inv_pop_wait: "waiter_inv s \<Longrightarrow> waiter_inv (fst (nano_fiber_stack_pop_wait s))"
  by (auto simp add: waiter_inv_def stack_defs Let_def)

lemma waiter_inv_isr_run: "waiter_inv s \<Longrightarrow> waiter_inv (isr_run s h)"
  by (induction s h rule: isr_run.induct) (simp_all add: waiter_inv_push waiter_inv_pop)

text \<open>The polling loop, one turn at a time, with the masking and unmasking worked out.\<close>

lemma task_pop_wait_Nil:
  "nano_task_stack_pop_wait s [] =
     (if base (chan s) < next (chan s)
      then (s\<lparr>chan := (chan s)\<lparr>next := next (chan s) - 4\<rparr>\<rparr>,
            Some (mem s (next (chan s) - 4)))
      else (s, None))"
  by (simp add: irq_lock_inline_def irq_unlock_inline_def)

lemma task_pop_wait_Cons:
  "nano_task_stack_pop_wait s (h # irqs) =
     (if base (chan s) < next (chan s)
      then (s\<lparr>chan := (chan s)\<lparr>next := next (chan s) - 4\<rparr>\<rparr>,
            Some (mem s (next (chan s) - 4)))
      else nano_task_stack_pop_wait (isr_run s h) irqs)"
  by (simp add: irq_lock_inline_def irq_unlock_inline_def nano_cpu_atomic_idle_def)

lemma waiter_inv_task_pop_wait:
  "waiter_inv s \<Longrightarrow> waiter_inv (fst (nano_task_stack_pop_wait s irqs))"
proof (induction irqs arbitrary: s)
  case Nil
  then show ?case
    unfolding task_pop_wait_Nil by (auto simp add: waiter_inv_def)
next
  case (Cons h irqs)
  show ?case
  proof (cases "base (chan s) < next (chan s)")
    case True
    with Cons.prems show ?thesis
      unfolding task_pop_wait_Cons by (auto simp add: waiter_inv_def)
  next
    case False
    then show ?thesis
      unfolding task_pop_wait_Cons
      using Cons.IH [OF waiter_inv_isr_run [OF Cons.prems]] by simp
  qed
qed

lemma waiter_inv_step: "waiter_inv s \<Longrightarrow> waiter_inv (step s c)"
proof (cases c)
  case (Other f)
  assume "waiter_inv s"
  with Other show ?thesis
    by (simp add: waiter_inv_def)
qed (simp_all add: waiter_inv_push waiter_inv_task_push waiter_inv_pop waiter_inv_pop_wait
    waiter_inv_task_pop_wait)

lemma waiter_inv_run_calls: "waiter_inv s \<Longrightarrow> waiter_inv (run_calls s cs)"
  by (induction cs arbitrary: s) (simp_all add: waiter_inv_step)

text \<open>The states listed end in the state the function ends in, on both paths.\<close>

lemma stack_push_steps_last: "last (stack_push_steps s v) = stack_push s v"
  by (simp add: stack_push_steps_def stack_defs Let_def)

lemma nano_task_stack_push_steps_last:
  "last (nano_task_stack_push_steps s v) = fst (nano_task_stack_push s v)"
  by (simp add: nano_task_stack_push_steps_def stack_defs Let_def)

text \<open>Within the contract the store of a push goes into the buffer.\<close>

lemma push_fits_in_buffer:
  "push_fits cap s \<Longrightarrow> proc (chan s) = 0 \<Longrightarrow>
   in_buffer (base (chan s)) cap (next (chan s))"
  by (auto simp add: push_fits_def in_buffer_def buffered_def word_le_nat_alt)

text \<open>
  C3: take a stack initialized on a buffer of \<open>cap\<close> slots that ends below the top of
  the address space, and any list of calls of the two pushes, the pop and the two
  pop-or-waits, with the rest of the kernel running in between, in which every
  storing push comes while fewer than \<open>cap\<close> items are buffered. In the state reached
  the waiting-context field is non-null only while \<open>next = base\<close>. And a push that
  finds a waiter clears the field in the critical section in which it wakes the
  waiter. Of the states \<open>_stack_push\<close> goes through statement by statement, the first
  has interrupts masked and the waiter still registered and not yet on the ready
  list; every one before the unmasking has interrupts masked; the one the unmasking
  starts from has the hand-off complete; so whenever interrupts are unmasked in the
  call the field is clear and the waiter woken. \<open>nano_task_stack_push\<close> keeps
  interrupts masked in every state up to its call of \<open>_Swap\<close>, where the hand-off is
  complete.
\<close>

theorem waiter_only_while_empty:
  "(unat data + 4 * cap < 2 ^ 32 \<and> keeps_capacity cap (nano_stack_init s data) cs \<longrightarrow>
      proc (chan (run_calls (nano_stack_init s data) cs)) \<noteq> 0 \<longrightarrow>
      next (chan (run_calls (nano_stack_init s data) cs)) =
      base (chan (run_calls (nano_stack_init s data) cs)))
   \<and> (proc (chan t) \<noteq> 0 \<longrightarrow>
        last (stack_push_steps t v) = stack_push t v
        \<and> list_all irq_locked (butlast (stack_push_steps t v))
        \<and> proc (chan (hd (stack_push_steps t v))) = proc (chan t)
        \<and> fiber (hd (stack_push_steps t v)) = fiber t
        \<and> handed_off t v (last (butlast (stack_push_steps t v)))
        \<and> handed_off t v (last (stack_push_steps t v))
        \<and> list_all (\<lambda>u. irq_locked u \<or> handed_off t v u) (stack_push_steps t v))
   \<and> (proc (chan t) \<noteq> 0 \<longrightarrow>
        last (nano_task_stack_push_steps t v) = fst (nano_task_stack_push t v)
        \<and> list_all irq_locked (nano_task_stack_push_steps t v)
        \<and> proc (chan (hd (nano_task_stack_push_steps t v))) = proc (chan t)
        \<and> fiber (hd (nano_task_stack_push_steps t v)) = fiber t
        \<and> handed_off t v (last (nano_task_stack_push_steps t v)))"
proof -
  have "waiter_inv (run_calls (nano_stack_init s data) cs)"
    by (rule waiter_inv_run_calls [OF waiter_inv_init])
  then have inv: "proc (chan (run_calls (nano_stack_init s data) cs)) \<noteq> 0 \<longrightarrow>
      next (chan (run_calls (nano_stack_init s data) cs)) =
      base (chan (run_calls (nano_stack_init s data) cs))"
    by (simp add: waiter_inv_def)
  have isr: "proc (chan t) \<noteq> 0 \<longrightarrow>
        last (stack_push_steps t v) = stack_push t v
        \<and> list_all irq_locked (butlast (stack_push_steps t v))
        \<and> proc (chan (hd (stack_push_steps t v))) = proc (chan t)
        \<and> fiber (hd (stack_push_steps t v)) = fiber t
        \<and> handed_off t v (last (butlast (stack_push_steps t v)))
        \<and> handed_off t v (last (stack_push_steps t v))
        \<and> list_all (\<lambda>u. irq_locked u \<or> handed_off t v u) (stack_push_steps t v)"
    by (simp add: stack_push_steps_def handed_off_def stack_defs Let_def)
  have task: "proc (chan t) \<noteq> 0 \<longrightarrow>
        last (nano_task_stack_push_steps t v) = fst (nano_task_stack_push t v)
        \<and> list_all irq_locked (nano_task_stack_push_steps t v)
        \<and> proc (chan (hd (nano_task_stack_push_steps t v))) = proc (chan t)
        \<and> fiber (hd (nano_task_stack_push_steps t v)) = fiber t
        \<and> handed_off t v (last (nano_task_stack_push_steps t v))"
    by (simp add: nano_task_stack_push_steps_def handed_off_def stack_defs Let_def)
  from inv isr task show ?thesis
    by blast
qed

text \<open>
  An instance on a buffer of 4 slots: two words are pushed, one is popped, a polling
  task takes the other, polls again and gets the word an interrupt handler pushes,
  then fiber \<open>0x3000\<close> waits and the scheduler switches to another context with
  interrupts unmasked. The state reached has the waiter on an empty buffer, and each
  push from it hands off under the mask.
\<close>

theorem waiter_only_while_empty_witness:
  "unat (0x1000 :: addr) + 4 * 4 < 2 ^ 32
   \<and> keeps_capacity 4 (nano_stack_init example_sys 0x1000)
     [StackPush 1, TaskStackPush 2, StackPop 0x2000, TaskStackPopWait [],
      TaskStackPopWait [[IsrPush 5]], FiberStackPopWait,
      Other (\<lambda>s. s\<lparr>current := 0x5000, irq_locked := False\<rparr>)]
   \<and> chan (run_calls (nano_stack_init example_sys 0x1000)
     [StackPush 1, TaskStackPush 2, StackPop 0x2000, TaskStackPopWait [],
      TaskStackPopWait [[IsrPush 5]], FiberStackPopWait,
      Other (\<lambda>s. s\<lparr>current := 0x5000, irq_locked := False\<rparr>)])
       = \<lparr>proc = 0x3000, base = 0x1000, next = 0x1000\<rparr>
   \<and> \<not> irq_locked (run_calls (nano_stack_init example_sys 0x1000)
     [StackPush 1, TaskStackPush 2, StackPop 0x2000, TaskStackPopWait [],
      TaskStackPopWait [[IsrPush 5]], FiberStackPopWait,
      Other (\<lambda>s. s\<lparr>current := 0x5000, irq_locked := False\<rparr>)])
   \<and> list_all irq_locked (butlast (stack_push_steps (run_calls (nano_stack_init example_sys 0x1000)
     [StackPush 1, TaskStackPush 2, StackPop 0x2000, TaskStackPopWait [],
      TaskStackPopWait [[IsrPush 5]], FiberStackPopWait,
      Other (\<lambda>s. s\<lparr>current := 0x5000, irq_locked := False\<rparr>)]) 42))
   \<and> handed_off (run_calls (nano_stack_init example_sys 0x1000)
     [StackPush 1, TaskStackPush 2, StackPop 0x2000, TaskStackPopWait [],
      TaskStackPopWait [[IsrPush 5]], FiberStackPopWait,
      Other (\<lambda>s. s\<lparr>current := 0x5000, irq_locked := False\<rparr>)]) 42 (last (butlast (stack_push_steps (run_calls (nano_stack_init example_sys 0x1000)
     [StackPush 1, TaskStackPush 2, StackPop 0x2000, TaskStackPopWait [],
      TaskStackPopWait [[IsrPush 5]], FiberStackPopWait,
      Other (\<lambda>s. s\<lparr>current := 0x5000, irq_locked := False\<rparr>)]) 42)))
   \<and> list_all irq_locked (nano_task_stack_push_steps (run_calls (nano_stack_init example_sys 0x1000)
     [StackPush 1, TaskStackPush 2, StackPop 0x2000, TaskStackPopWait [],
      TaskStackPopWait [[IsrPush 5]], FiberStackPopWait,
      Other (\<lambda>s. s\<lparr>current := 0x5000, irq_locked := False\<rparr>)]) 42)
   \<and> handed_off (run_calls (nano_stack_init example_sys 0x1000)
     [StackPush 1, TaskStackPush 2, StackPop 0x2000, TaskStackPopWait [],
      TaskStackPopWait [[IsrPush 5]], FiberStackPopWait,
      Other (\<lambda>s. s\<lparr>current := 0x5000, irq_locked := False\<rparr>)]) 42 (last (nano_task_stack_push_steps (run_calls (nano_stack_init example_sys 0x1000)
     [StackPush 1, TaskStackPush 2, StackPop 0x2000, TaskStackPopWait [],
      TaskStackPopWait [[IsrPush 5]], FiberStackPopWait,
      Other (\<lambda>s. s\<lparr>current := 0x5000, irq_locked := False\<rparr>)]) 42))
   \<and> proc (chan (stack_push (run_calls (nano_stack_init example_sys 0x1000)
     [StackPush 1, TaskStackPush 2, StackPop 0x2000, TaskStackPopWait [],
      TaskStackPopWait [[IsrPush 5]], FiberStackPopWait,
      Other (\<lambda>s. s\<lparr>current := 0x5000, irq_locked := False\<rparr>)]) 42)) = 0
   \<and> fiber (stack_push (run_calls (nano_stack_init example_sys 0x1000)
     [StackPush 1, TaskStackPush 2, StackPop 0x2000, TaskStackPopWait [],
      TaskStackPopWait [[IsrPush 5]], FiberStackPopWait,
      Other (\<lambda>s. s\<lparr>current := 0x5000, irq_locked := False\<rparr>)]) 42) = [0x3000]
   \<and> rtn (stack_push (run_calls (nano_stack_init example_sys 0x1000)
     [StackPush 1, TaskStackPush 2, StackPop 0x2000, TaskStackPopWait [],
      TaskStackPopWait [[IsrPush 5]], FiberStackPopWait,
      Other (\<lambda>s. s\<lparr>current := 0x5000, irq_locked := False\<rparr>)]) 42) 0x3000 = 42"
proof -
  have st: "(run_calls (nano_stack_init example_sys 0x1000)
     [StackPush 1, TaskStackPush 2, StackPop 0x2000, TaskStackPopWait [],
      TaskStackPopWait [[IsrPush 5]], FiberStackPopWait,
      Other (\<lambda>s. s\<lparr>current := 0x5000, irq_locked := False\<rparr>)]) =
      example_sys\<lparr>chan := \<lparr>proc = 0x3000, base = 0x1000, next = 0x1000\<rparr>,
        mem := (mem example_sys)(0x1004 := 2, 0x2000 := 2, 0x1000 := 5),
        current := 0x5000\<rparr>"
    by (simp add: example_sys_def nano_stack_init_def stack_defs Let_def
        nano_cpu_atomic_idle_def)
  have w: "unat (0x1000 :: addr) + 4 * 4 < 2 ^ 32"
    by simp
  have cap: "keeps_capacity 4 (nano_stack_init example_sys 0x1000)
     [StackPush 1, TaskStackPush 2, StackPop 0x2000, TaskStackPopWait [],
      TaskStackPopWait [[IsrPush 5]], FiberStackPopWait,
      Other (\<lambda>s. s\<lparr>current := 0x5000, irq_locked := False\<rparr>)]"
    by (simp add: example_sys_def nano_stack_init_def stack_defs Let_def
        nano_cpu_atomic_idle_def push_fits_def buffered_def)
  have ch: "chan (run_calls (nano_stack_init example_sys 0x1000)
     [StackPush 1, TaskStackPush 2, StackPop 0x2000, TaskStackPopWait [],
      TaskStackPopWait [[IsrPush 5]], FiberStackPopWait,
      Other (\<lambda>s. s\<lparr>current := 0x5000, irq_locked := False\<rparr>)])
       = \<lparr>proc = 0x3000, base = 0x1000, next = 0x1000\<rparr>"
    and fb: "fiber (run_calls (nano_stack_init example_sys 0x1000)
     [StackPush 1, TaskStackPush 2, StackPop 0x2000, TaskStackPopWait [],
      TaskStackPopWait [[IsrPush 5]], FiberStackPopWait,
      Other (\<lambda>s. s\<lparr>current := 0x5000, irq_locked := False\<rparr>)]) = []"
    and irq: "\<not> irq_locked (run_calls (nano_stack_init example_sys 0x1000)
     [StackPush 1, TaskStackPush 2, StackPop 0x2000, TaskStackPopWait [],
      TaskStackPopWait [[IsrPush 5]], FiberStackPopWait,
      Other (\<lambda>s. s\<lparr>current := 0x5000, irq_locked := False\<rparr>)])"
    unfolding st by (simp_all add: example_sys_def)
  have nz: "proc (chan (run_calls (nano_stack_init example_sys 0x1000)
     [StackPush 1, TaskStackPush 2, StackPop 0x2000, TaskStackPopWait [],
      TaskStackPopWait [[IsrPush 5]], FiberStackPopWait,
      Other (\<lambda>s. s\<lparr>current := 0x5000, irq_locked := False\<rparr>)])) \<noteq> 0"
    and pr: "proc (chan (run_calls (nano_stack_init example_sys 0x1000)
     [StackPush 1, TaskStackPush 2, StackPop 0x2000, TaskStackPopWait [],
      TaskStackPopWait [[IsrPush 5]], FiberStackPopWait,
      Other (\<lambda>s. s\<lparr>current := 0x5000, irq_locked := False\<rparr>)])) = 0x3000"
    unfolding ch by simp_all
  note h = waiter_only_while_empty [of "0x1000" 4 example_sys
     "[StackPush 1, TaskStackPush 2, StackPop 0x2000, TaskStackPopWait [],
      TaskStackPopWait [[IsrPush 5]], FiberStackPopWait,
      Other (\<lambda>s. s\<lparr>current := 0x5000, irq_locked := False\<rparr>)]"
     "(run_calls (nano_stack_init example_sys 0x1000)
     [StackPush 1, TaskStackPush 2, StackPop 0x2000, TaskStackPopWait [],
      TaskStackPopWait [[IsrPush 5]], FiberStackPopWait,
      Other (\<lambda>s. s\<lparr>current := 0x5000, irq_locked := False\<rparr>)])" 42]
  from h nz have m1: "list_all irq_locked (butlast (stack_push_steps (run_calls (nano_stack_init example_sys 0x1000)
     [StackPush 1, TaskStackPush 2, StackPop 0x2000, TaskStackPopWait [],
      TaskStackPopWait [[IsrPush 5]], FiberStackPopWait,
      Other (\<lambda>s. s\<lparr>current := 0x5000, irq_locked := False\<rparr>)]) 42))"
    and h1: "handed_off (run_calls (nano_stack_init example_sys 0x1000)
     [StackPush 1, TaskStackPush 2, StackPop 0x2000, TaskStackPopWait [],
      TaskStackPopWait [[IsrPush 5]], FiberStackPopWait,
      Other (\<lambda>s. s\<lparr>current := 0x5000, irq_locked := False\<rparr>)]) 42 (last (butlast (stack_push_steps (run_calls (nano_stack_init example_sys 0x1000)
     [StackPush 1, TaskStackPush 2, StackPop 0x2000, TaskStackPopWait [],
      TaskStackPopWait [[IsrPush 5]], FiberStackPopWait,
      Other (\<lambda>s. s\<lparr>current := 0x5000, irq_locked := False\<rparr>)]) 42)))"
    and l1: "last (stack_push_steps (run_calls (nano_stack_init example_sys 0x1000)
     [StackPush 1, TaskStackPush 2, StackPop 0x2000, TaskStackPopWait [],
      TaskStackPopWait [[IsrPush 5]], FiberStackPopWait,
      Other (\<lambda>s. s\<lparr>current := 0x5000, irq_locked := False\<rparr>)]) 42) = stack_push (run_calls (nano_stack_init example_sys 0x1000)
     [StackPush 1, TaskStackPush 2, StackPop 0x2000, TaskStackPopWait [],
      TaskStackPopWait [[IsrPush 5]], FiberStackPopWait,
      Other (\<lambda>s. s\<lparr>current := 0x5000, irq_locked := False\<rparr>)]) 42"
    and h2: "handed_off (run_calls (nano_stack_init example_sys 0x1000)
     [StackPush 1, TaskStackPush 2, StackPop 0x2000, TaskStackPopWait [],
      TaskStackPopWait [[IsrPush 5]], FiberStackPopWait,
      Other (\<lambda>s. s\<lparr>current := 0x5000, irq_locked := False\<rparr>)]) 42 (last (stack_push_steps (run_calls (nano_stack_init example_sys 0x1000)
     [StackPush 1, TaskStackPush 2, StackPop 0x2000, TaskStackPopWait [],
      TaskStackPopWait [[IsrPush 5]], FiberStackPopWait,
      Other (\<lambda>s. s\<lparr>current := 0x5000, irq_locked := False\<rparr>)]) 42))"
    and m3: "list_all irq_locked (nano_task_stack_push_steps (run_calls (nano_stack_init example_sys 0x1000)
     [StackPush 1, TaskStackPush 2, StackPop 0x2000, TaskStackPopWait [],
      TaskStackPopWait [[IsrPush 5]], FiberStackPopWait,
      Other (\<lambda>s. s\<lparr>current := 0x5000, irq_locked := False\<rparr>)]) 42)"
    and h3: "handed_off (run_calls (nano_stack_init example_sys 0x1000)
     [StackPush 1, TaskStackPush 2, StackPop 0x2000, TaskStackPopWait [],
      TaskStackPopWait [[IsrPush 5]], FiberStackPopWait,
      Other (\<lambda>s. s\<lparr>current := 0x5000, irq_locked := False\<rparr>)]) 42 (last (nano_task_stack_push_steps (run_calls (nano_stack_init example_sys 0x1000)
     [StackPush 1, TaskStackPush 2, StackPop 0x2000, TaskStackPopWait [],
      TaskStackPopWait [[IsrPush 5]], FiberStackPopWait,
      Other (\<lambda>s. s\<lparr>current := 0x5000, irq_locked := False\<rparr>)]) 42))"
    by blast+
  from h2 have post: "proc (chan (stack_push (run_calls (nano_stack_init example_sys 0x1000)
     [StackPush 1, TaskStackPush 2, StackPop 0x2000, TaskStackPopWait [],
      TaskStackPopWait [[IsrPush 5]], FiberStackPopWait,
      Other (\<lambda>s. s\<lparr>current := 0x5000, irq_locked := False\<rparr>)]) 42)) = 0"
    "fiber (stack_push (run_calls (nano_stack_init example_sys 0x1000)
     [StackPush 1, TaskStackPush 2, StackPop 0x2000, TaskStackPopWait [],
      TaskStackPopWait [[IsrPush 5]], FiberStackPopWait,
      Other (\<lambda>s. s\<lparr>current := 0x5000, irq_locked := False\<rparr>)]) 42) = [0x3000]"
    "rtn (stack_push (run_calls (nano_stack_init example_sys 0x1000)
     [StackPush 1, TaskStackPush 2, StackPop 0x2000, TaskStackPopWait [],
      TaskStackPopWait [[IsrPush 5]], FiberStackPopWait,
      Other (\<lambda>s. s\<lparr>current := 0x5000, irq_locked := False\<rparr>)]) 42) 0x3000 = 42"
    unfolding l1 handed_off_def pr fb by simp_all
  from w cap ch irq m1 h1 m3 h3 post show ?thesis
    by blast
qed

end
